theory Spec2Isabelle
  imports Complex_Main
begin

section \<open>Values of the request body\<close>

text \<open>
  Amounts are JavaScript numbers. The model keeps the exact rational value of a number
  and the one special value the handlers test for, \<open>NaN\<close>; rounding of IEEE doubles and
  the infinities are outside the model.
\<close>

datatype number = NaN | Num rat

text \<open>
  A field of the parsed JSON body. A string is kept together with the number that the
  built-in string-to-number conversion of the language yields for it (\<open>NaN\<close> for a text
  that is no numeric literal); that conversion is not part of the repository.
\<close>

datatype jsval = JUndefined | JNull | JBool bool | JNumber rat | JString string number

fun Number :: "jsval \<Rightarrow> number" where
  "Number JUndefined = NaN"
| "Number JNull = Num 0"
| "Number (JBool b) = Num (if b then 1 else 0)"
| "Number (JNumber r) = Num r"
| "Number (JString s n) = n"

text \<open>Truthiness, as tested by \<open>!amount\<close> and \<open>if (sendMessage)\<close>.\<close>

fun truthy :: "jsval \<Rightarrow> bool" where
  "truthy JUndefined = False"
| "truthy JNull = False"
| "truthy (JBool b) = b"
| "truthy (JNumber r) = (r \<noteq> 0)"
| "truthy (JString s n) = (s \<noteq> [])"


text \<open>\<open>x <= 0\<close> on numbers: every comparison with \<open>NaN\<close> is false.\<close>

fun le_zero :: "number \<Rightarrow> bool" where
  "le_zero NaN = False"
| "le_zero (Num r) = (r \<le> 0)"

section \<open>Documents and the store\<close>

type_synonym oid = nat

text \<open>
  Instants are milliseconds on the local wall clock (the server's time zone is a fixed
  offset, so a local day has 86400000 of them).
\<close>

type_synonym time = int

datatype transaction_type = Credit | Debit | Loan | Repay

text \<open>\<open>models/Friend.js\<close>: every numeric field has the default 0.\<close>

record friend =
  fid :: oid
  name :: string
  whatsapp :: string
  savedAmount :: rat
  totalBalance :: rat
  owedAmount :: rat
  lastUpdatedAt :: time

text \<open>
  \<open>models/Transaction.js\<close>. The field \<open>type\<close> is \<open>ttype\<close> here, \<open>note\<close> is \<open>tnote\<close> and
  \<open>friend\<close> is \<open>owner\<close>; the snapshots \<open>previousBalance\<close> and \<open>newBalance\<close> default to \<open>null\<close>,
  \<open>reason\<close> to the empty string, \<open>date\<close> to the instant of construction.
\<close>

record transaction =
  tid :: oid
  owner :: oid
  ttype :: transaction_type
  amount :: rat
  reason :: string
  tnote :: "string option"
  date :: time
  previousBalance :: "rat option"
  newBalance :: "rat option"
  createdAt :: time

text \<open>The two collections of the document database.\<close>

record db =
  friends :: "friend list"
  transactions :: "transaction list"

text \<open>
  The schema default of \<open>type\<close>. The repository holds two versions of the Transaction
  schema: \<open>models/Transaction.js\<close> with the default \<open>'loan'\<close> and the later one, marked
  FIXED, with the default \<open>'debit'\<close>. Handlers that construct a transaction without a
  type take the default in force as a parameter.
\<close>

definition schema_default_original :: transaction_type where
  "schema_default_original = Loan"

definition schema_default_fixed :: transaction_type where
  "schema_default_fixed = Debit"

text \<open>\<open>Friend.findById\<close> and \<open>Transaction.findById\<close>.\<close>

definition Friend_findById :: "db \<Rightarrow> oid \<Rightarrow> friend option" where
  "Friend_findById d i = find (\<lambda>f. fid f = i) (friends d)"

definition Loan_findById :: "db \<Rightarrow> oid \<Rightarrow> transaction option" where
  "Loan_findById d i = find (\<lambda>t. tid t = i) (transactions d)"

text \<open>\<open>Friend.findByIdAndUpdate(id, { owedAmount, lastUpdatedAt })\<close>.\<close>

definition Friend_findByIdAndUpdate :: "db \<Rightarrow> oid \<Rightarrow> rat \<Rightarrow> time \<Rightarrow> db" where
  "Friend_findByIdAndUpdate d i owed now =
     d\<lparr>friends := map (\<lambda>f. if fid f = i then f\<lparr>owedAmount := owed, lastUpdatedAt := now\<rparr> else f)
                        (friends d)\<rparr>"

text \<open>\<open>doc.save()\<close> of a friend or a transaction that is already stored: the stored
  document with the same id is replaced.\<close>

definition Friend_save :: "db \<Rightarrow> friend \<Rightarrow> db" where
  "Friend_save d f = d\<lparr>friends := map (\<lambda>g. if fid g = fid f then f else g) (friends d)\<rparr>"

definition Loan_save :: "db \<Rightarrow> transaction \<Rightarrow> db" where
  "Loan_save d t = d\<lparr>transactions := map (\<lambda>u. if tid u = tid t then t else u) (transactions d)\<rparr>"

text \<open>\<open>Transaction.create\<close> and \<open>new Transaction(...).save()\<close>: a new document is appended.\<close>

definition Transaction_create :: "db \<Rightarrow> transaction \<Rightarrow> db" where
  "Transaction_create d t = d\<lparr>transactions := transactions d @ [t]\<rparr>"

section \<open>HTTP errors\<close>

text \<open>An error response: the status and the text of \<open>{ error: ... }\<close>.\<close>

datatype http_error = HttpError nat string

definition InvalidPayload :: http_error where
  "InvalidPayload = HttpError 400 ''Invalid payload''"

definition InvalidAmount :: http_error where
  "InvalidAmount = HttpError 400 ''Invalid amount''"

definition InvalidIncrement :: http_error where
  "InvalidIncrement = HttpError 400 ''Invalid increment''"

definition InvalidDebitAmount :: http_error where
  "InvalidDebitAmount = HttpError 400 ''amount must be a positive number''"

definition FriendNotFound :: http_error where
  "FriendNotFound = HttpError 404 ''Friend not found''"

definition LoanNotFound :: http_error where
  "LoanNotFound = HttpError 404 ''Loan not found''"

definition OverRepayment :: http_error where
  "OverRepayment = HttpError 400 ''Repay amount greater than owed''"

definition NotificationUnavailable :: http_error where
  "NotificationUnavailable = HttpError 503 ''UltraMsg not configured''"

definition FailedToCreateLoan :: http_error where
  "FailedToCreateLoan = HttpError 500 ''Failed to create loan''"

section \<open>The messaging provider\<close>

text \<open>
  \<open>process.env\<close>: the credentials read by \<open>routes/loans.js\<close> and \<open>server.js\<close>
  (\<open>ULTRAMSG_INSTANCE\<close>, \<open>ULTRAMSG_TOKEN\<close>) and the instance variable read by the
  handlers of \<open>routes/friends.js\<close> (\<open>ULTRAMSG_INSTANCE_ID\<close>). A variable is falsy when it
  is unset or empty.
\<close>

record env =
  ULTRAMSG_INSTANCE :: "string option"
  ULTRAMSG_TOKEN :: "string option"
  ULTRAMSG_INSTANCE_ID :: "string option"

fun is_set :: "string option \<Rightarrow> bool" where
  "is_set None = False"
| "is_set (Some s) = (s \<noteq> [])"

text \<open>What the HTTP call to the provider does: it answers with data, or it throws.\<close>

datatype provider_outcome = Delivered string | Failed string

text \<open>\<open>controllers/ultramsg.js\<close>: \<open>Inl\<close> is the thrown error's message.\<close>

definition sendWhatsAppMessage :: "string option \<Rightarrow> string option \<Rightarrow> provider_outcome \<Rightarrow> string + string" where
  "sendWhatsAppMessage instanceId token p =
     (if \<not> is_set instanceId \<or> \<not> is_set token then Inl ''UltraMsg not configured''
      else case p of Delivered dat \<Rightarrow> Inr dat | Failed msg \<Rightarrow> Inl msg)"

text \<open>The \<open>sendResult\<close> member of a response.\<close>

datatype send_result = SendNull | SendData string | SendFailure string

section \<open>Recomputation of the owed amount (\<open>routes/loans.js\<close>)\<close>

text \<open>
  The aggregation pipeline of \<open>recalcOwed\<close>: the \<open>$match\<close> stage, then the single
  \<open>$group\<close> with its two conditional sums; no group when nothing matches.
\<close>

definition match_stage :: "oid \<Rightarrow> transaction list \<Rightarrow> transaction list" where
  "match_stage friendId ts =
     filter (\<lambda>t. owner t = friendId \<and> (ttype t = Loan \<or> ttype t = Repay)) ts"

definition group_stage :: "transaction list \<Rightarrow> (rat \<times> rat) option" where
  "group_stage ms =
     (if ms = [] then None
      else Some (sum_list (map (\<lambda>t. if ttype t = Loan then amount t else 0) ms),
                 sum_list (map (\<lambda>t. if ttype t = Repay then amount t else 0) ms)))"

definition recalcOwed :: "db \<Rightarrow> oid \<Rightarrow> time \<Rightarrow> db \<times> rat" where
  "recalcOwed d friendId now =
     (let tot = (case group_stage (match_stage friendId (transactions d)) of
                     Some (loanSum, repaySum) \<Rightarrow> loanSum - repaySum
                   | None \<Rightarrow> 0)
      in (Friend_findByIdAndUpdate d friendId tot now, tot))"

text \<open>
  The invariant of the data model, in the words of the specification: the sum of the
  amounts of the friend's loan transactions minus the sum of the amounts of the friend's
  repay transactions.
\<close>

definition ledger_net :: "transaction list \<Rightarrow> oid \<Rightarrow> rat" where
  "ledger_net ts friendId =
     sum_list (map amount (filter (\<lambda>t. owner t = friendId \<and> ttype t = Loan) ts))
     - sum_list (map amount (filter (\<lambda>t. owner t = friendId \<and> ttype t = Repay) ts))"

definition owed_consistent :: "db \<Rightarrow> oid \<Rightarrow> bool" where
  "owed_consistent d friendId =
     (case Friend_findById d friendId of
        None \<Rightarrow> False
      | Some f \<Rightarrow> owedAmount f = ledger_net (transactions d) friendId)"

section \<open>The loan routes (\<open>routes/loans.js\<close>)\<close>

text \<open>
  Every handler takes the store and returns the store it leaves behind together with its
  response, \<open>Inl\<close> for an error response. The clock reading \<open>now\<close> (one reading for all
  the dates a handler sets) and the identifier \<open>newId\<close> generated for a created document
  are inputs. Identifiers are unique in a collection. The debit route takes its path
  parameter as it arrives, well-formed or not; the other handlers are modelled on
  well-formed identifiers.
\<close>

text \<open>
  \<open>POST /api/loans\<close>. \<open>friendId\<close> is \<open>None\<close> when the body has none. A success answers
  201 with the loan, the friend as read back, and \<open>sendResult\<close>. An amount that passes the
  validation and is no number makes \<open>Loan.create\<close> throw before it writes, which the
  handler turns into 500.
\<close>

definition createLoan ::
  "env \<Rightarrow> provider_outcome \<Rightarrow> oid \<Rightarrow> time \<Rightarrow> db \<Rightarrow> oid option \<Rightarrow> jsval \<Rightarrow> string \<Rightarrow> bool
   \<Rightarrow> db \<times> (http_error + transaction \<times> friend option \<times> send_result)" where
  "createLoan e p newId now d friendId amt rsn sendMessage =
     (case friendId of
        None \<Rightarrow> (d, Inl InvalidPayload)
      | Some i \<Rightarrow>
          if \<not> truthy amt \<or> le_zero (Number amt) then (d, Inl InvalidPayload)
          else
            (case Friend_findById d i of
               None \<Rightarrow> (d, Inl FriendNotFound)
             | Some fr \<Rightarrow>
                 (case Number amt of
                    NaN \<Rightarrow> (d, Inl FailedToCreateLoan)
                  | Num a \<Rightarrow>
                      (let prev = owedAmount fr;
                           newBal = prev + a;
                           loan = \<lparr>tid = newId, owner = fid fr, ttype = Loan, amount = a,
                                   reason = rsn, tnote = None, date = now,
                                   previousBalance = Some prev, newBalance = Some newBal,
                                   createdAt = now\<rparr>;
                           d1 = Transaction_create d loan;
                           d2 = fst (recalcOwed d1 (fid fr) now)
                       in if sendMessage then
                            (if \<not> is_set (ULTRAMSG_INSTANCE e) \<or> \<not> is_set (ULTRAMSG_TOKEN e)
                             then (d2, Inl NotificationUnavailable)
                             else
                               (case sendWhatsAppMessage (ULTRAMSG_INSTANCE e) (ULTRAMSG_TOKEN e) p of
                                  Inl msg \<Rightarrow>
                                    (d2, Inr (loan, Friend_findById d2 (fid fr), SendFailure msg))
                                | Inr dat \<Rightarrow>
                                    (d2, Inr (loan, Friend_findById d2 (fid fr), SendData dat))))
                          else (d2, Inr (loan, Friend_findById d2 (fid fr), SendNull))))))"

text \<open>
  \<open>PATCH /api/loans/:id\<close>. A body member that is absent is \<open>JUndefined\<close> (\<open>None\<close> for
  \<open>reason\<close>). The branch on \<open>increment\<close> is taken only when \<open>amount\<close> is absent.
\<close>

definition patch_finish :: "time \<Rightarrow> db \<Rightarrow> transaction \<Rightarrow> string option
   \<Rightarrow> db \<times> (http_error + transaction \<times> friend option)" where
  "patch_finish now d loan rsn =
     (let loan' = (case rsn of None \<Rightarrow> loan | Some r \<Rightarrow> loan\<lparr>reason := r\<rparr>);
          d1 = Loan_save d loan';
          d2 = fst (recalcOwed d1 (owner loan') now)
      in (d2, Inr (loan', Friend_findById d2 (owner loan'))))"

definition patchLoan :: "time \<Rightarrow> db \<Rightarrow> oid \<Rightarrow> jsval \<Rightarrow> jsval \<Rightarrow> string option
   \<Rightarrow> db \<times> (http_error + transaction \<times> friend option)" where
  "patchLoan now d i amt inc rsn =
     (case Loan_findById d i of
        None \<Rightarrow> (d, Inl LoanNotFound)
      | Some loan \<Rightarrow>
          if amt \<noteq> JUndefined then
            (case Number amt of
               NaN \<Rightarrow> (d, Inl InvalidAmount)
             | Num newAmount \<Rightarrow>
                 if newAmount < 0 then (d, Inl InvalidAmount)
                 else patch_finish now d (loan\<lparr>amount := newAmount\<rparr>) rsn)
          else if inc \<noteq> JUndefined then
            (case Number inc of
               NaN \<Rightarrow> (d, Inl InvalidIncrement)
             | Num k \<Rightarrow> patch_finish now d (loan\<lparr>amount := amount loan + k\<rparr>) rsn)
          else patch_finish now d loan rsn)"

text \<open>\<open>DELETE /api/loans/:id\<close>.\<close>

definition Loan_deleteOne :: "db \<Rightarrow> transaction \<Rightarrow> db" where
  "Loan_deleteOne d loan = d\<lparr>transactions := filter (\<lambda>t. tid t \<noteq> tid loan) (transactions d)\<rparr>"

definition deleteLoan :: "time \<Rightarrow> db \<Rightarrow> oid \<Rightarrow> db \<times> (http_error + friend option)" where
  "deleteLoan now d i =
     (case Loan_findById d i of
        None \<Rightarrow> (d, Inl LoanNotFound)
      | Some loan \<Rightarrow>
          (let friendId = owner loan;
               d1 = Loan_deleteOne d loan;
               d2 = fst (recalcOwed d1 friendId now)
           in (d2, Inr (Friend_findById d2 friendId))))"

section \<open>The loan and repayment handlers of \<open>routes/friends.js\<close>\<close>

text \<open>
  \<open>POST /:id/loan\<close>. The third component of the result is what the handler writes to the
  console about the send. \<open>note\<close> falls back to a fixed text when it is absent or empty.
\<close>

definition note_or :: "string option \<Rightarrow> string \<Rightarrow> string" where
  "note_or nt dflt = (case nt of None \<Rightarrow> dflt | Some s \<Rightarrow> if s = [] then dflt else s)"

definition friendLoan ::
  "env \<Rightarrow> provider_outcome \<Rightarrow> oid \<Rightarrow> time \<Rightarrow> db \<Rightarrow> oid \<Rightarrow> jsval \<Rightarrow> string option \<Rightarrow> bool
   \<Rightarrow> db \<times> (http_error + transaction \<times> friend) \<times> string list" where
  "friendLoan e p newId now d i amt nt sendMessage =
     (case Friend_findById d i of
        None \<Rightarrow> (d, Inl FriendNotFound, [])
      | Some fr \<Rightarrow>
          (case Number amt of
             NaN \<Rightarrow> (d, Inl InvalidAmount, [])
           | Num a \<Rightarrow>
               if a \<le> 0 then (d, Inl InvalidAmount, [])
               else
                 (let prevOwed = owedAmount fr;
                      newOwed = prevOwed + a;
                      tx = \<lparr>tid = newId, owner = fid fr, ttype = Loan, amount = a,
                            reason = [], tnote = Some (note_or nt ''Loan recorded''), date = now,
                            previousBalance = Some prevOwed, newBalance = Some newOwed,
                            createdAt = now\<rparr>;
                      d1 = Transaction_create d tx;
                      fr' = fr\<lparr>owedAmount := newOwed, lastUpdatedAt := now\<rparr>;
                      d2 = Friend_save d1 fr';
                      console =
                        (if sendMessage \<and> is_set (ULTRAMSG_INSTANCE_ID e) \<and> is_set (ULTRAMSG_TOKEN e)
                         then (case sendWhatsAppMessage (ULTRAMSG_INSTANCE_ID e) (ULTRAMSG_TOKEN e) p of
                                 Inl msg \<Rightarrow> [''UltraMsg send error: '' @ msg]
                               | Inr dat \<Rightarrow> [])
                         else [])
                  in (d2, Inr (tx, fr'), console))))"

text \<open>\<open>POST /:id/repay\<close>.\<close>

definition friendRepay ::
  "oid \<Rightarrow> time \<Rightarrow> db \<Rightarrow> oid \<Rightarrow> jsval \<Rightarrow> string option
   \<Rightarrow> db \<times> (http_error + transaction \<times> friend)" where
  "friendRepay newId now d i amt nt =
     (case Friend_findById d i of
        None \<Rightarrow> (d, Inl FriendNotFound)
      | Some fr \<Rightarrow>
          (case Number amt of
             NaN \<Rightarrow> (d, Inl InvalidAmount)
           | Num a \<Rightarrow>
               if a \<le> 0 then (d, Inl InvalidAmount)
               else
                 (let prevOwed = owedAmount fr;
                      newOwed = prevOwed - a
                  in if newOwed < 0 then (d, Inl OverRepayment)
                     else
                       (let tx = \<lparr>tid = newId, owner = fid fr, ttype = Repay, amount = a,
                                  reason = [], tnote = Some (note_or nt ''Repayment''), date = now,
                                  previousBalance = Some prevOwed, newBalance = Some newOwed,
                                  createdAt = now\<rparr>;
                            d1 = Transaction_create d tx;
                            fr' = fr\<lparr>owedAmount := newOwed, lastUpdatedAt := now\<rparr>;
                            d2 = Friend_save d1 fr'
                        in (d2, Inr (tx, fr'))))))"

section \<open>The debit route and its helpers (\<open>server.js\<close>)\<close>

text \<open>\<open>normalizePhone\<close>: the digits of the handle.\<close>

definition normalizePhone :: "string \<Rightarrow> string" where
  "normalizePhone to = filter (\<lambda>c. c \<in> set ''0123456789'') to"

text \<open>The object \<open>{ success, data | error }\<close> returned by \<open>sendUltraMsgOnce\<close>.\<close>

datatype send_report = Success string | Failure string

definition sendUltraMsgOnce :: "env \<Rightarrow> provider_outcome \<Rightarrow> string \<Rightarrow> send_report" where
  "sendUltraMsgOnce e p to =
     (if \<not> is_set (ULTRAMSG_INSTANCE e) \<or> \<not> is_set (ULTRAMSG_TOKEN e)
      then Failure ''ultramsg_not_configured''
      else if normalizePhone to = [] then Failure ''invalid_phone''
      else case p of Delivered dat \<Rightarrow> Success dat | Failed detail \<Rightarrow> Failure detail)"

text \<open>
  \<open>sendUltraMsgFireAndForget\<close> starts the send and returns at once; all that the detached
  task does with the outcome is to log it. The value is the logged line.
\<close>

definition sendUltraMsgFireAndForget :: "env \<Rightarrow> provider_outcome \<Rightarrow> string \<Rightarrow> string" where
  "sendUltraMsgFireAndForget e p to =
     ''UltraMsg background send result: '' @
       (case sendUltraMsgOnce e p to of
          Success dat \<Rightarrow> ''ok''
        | Failure err \<Rightarrow> if err = [] then ''failed'' else err)"

text \<open>
  \<open>todaysSpent\<close>. \<open>setHours(0,0,0,0)\<close> and \<open>setHours(23,59,59,999)\<close> give the first and
  the last millisecond of the local day of \<open>now\<close>; the query selects on \<open>friend\<close> and
  \<open>date\<close> only.
\<close>

definition startOfDay :: "time \<Rightarrow> time" where
  "startOfDay now = now - now mod 86400000"

definition endOfDay :: "time \<Rightarrow> time" where
  "endOfDay now = startOfDay now + 86399999"

definition todaysSpent :: "db \<Rightarrow> oid \<Rightarrow> time \<Rightarrow> rat" where
  "todaysSpent d friendId now =
     (let txs = filter (\<lambda>t. owner t = friendId \<and> startOfDay now \<le> date t \<and> date t \<le> endOfDay now)
                       (transactions d)
      in foldl (\<lambda>s t. s + amount t) 0 txs)"

text \<open>The values interpolated into the notification text of a debit.\<close>

record debit_message =
  msg_date :: time
  msg_name :: string
  msg_saved :: rat
  msg_debited :: rat
  msg_previous :: rat
  msg_today :: rat
  msg_available :: rat
  msg_note :: "string option"

text \<open>
  The path parameter \<open>:friendId\<close> of a request: the identifier it denotes, or a text that
  is no well-formed identifier. For such a text the lookup by id throws a cast error; the
  text is kept as the message of that error, which the library composes.
\<close>

datatype id_param = ObjectId oid | Malformed string

text \<open>\<open>Friend.findById\<close> on a path parameter: \<open>Inl\<close> is the message of the error thrown.\<close>

definition Friend_findById_cast :: "db \<Rightarrow> id_param \<Rightarrow> string + friend option" where
  "Friend_findById_cast d param =
     (case param of
        Malformed msg \<Rightarrow> Inl msg
      | ObjectId i \<Rightarrow> Inr (Friend_findById d i))"

text \<open>The \<open>catch\<close> of the debit handler: 500 with \<open>err.message || String(err)\<close>.\<close>

definition caught_error :: "string \<Rightarrow> http_error" where
  "caught_error msg = HttpError 500 (if msg = [] then ''CastError'' else msg)"

text \<open>
  \<open>POST /api/friends/:friendId/deduct\<close> (the handler with the background send). \<open>dflt\<close> is
  the schema default of \<open>type\<close>, \<open>now\<close> the instant at which the transaction is
  constructed and \<open>later\<close> the clock reading of \<open>todaysSpent\<close>. The third component is the
  message handed to the background send with the line that the detached task logs.
\<close>

definition deduct ::
  "transaction_type \<Rightarrow> env \<Rightarrow> provider_outcome \<Rightarrow> oid \<Rightarrow> time \<Rightarrow> time \<Rightarrow> db \<Rightarrow> id_param
   \<Rightarrow> jsval \<Rightarrow> string option
   \<Rightarrow> db \<times> (http_error + friend \<times> transaction) \<times> (debit_message \<times> string) option" where
  "deduct dflt e p newId now later d friendId amt nt =
     (case Number amt of
        NaN \<Rightarrow> (d, Inl InvalidDebitAmount, None)
      | Num a \<Rightarrow>
          if a \<le> 0 then (d, Inl InvalidDebitAmount, None)
          else
            (case Friend_findById_cast d friendId of
               Inl msg \<Rightarrow> (d, Inl (caught_error msg), None)
             | Inr None \<Rightarrow> (d, Inl FriendNotFound, None)
             | Inr (Some fr) \<Rightarrow>
                 (let previous = totalBalance fr;
                      tx = \<lparr>tid = newId, owner = fid fr, ttype = dflt, amount = a,
                            reason = [], tnote = nt, date = now,
                            previousBalance = None, newBalance = None, createdAt = now\<rparr>;
                      d1 = Transaction_create d tx;
                      fr' = fr\<lparr>totalBalance := previous - a, lastUpdatedAt := date tx\<rparr>;
                      d2 = Friend_save d1 fr';
                      todaySpent = todaysSpent d2 (fid fr') later;
                      messageText = \<lparr>msg_date = date tx, msg_name = name fr',
                                     msg_saved = savedAmount fr', msg_debited = a,
                                     msg_previous = previous, msg_today = todaySpent,
                                     msg_available = totalBalance fr', msg_note = nt\<rparr>
                  in (d2, Inr (fr', tx),
                      Some (messageText, sendUltraMsgFireAndForget e p (whatsapp fr'))))))"

text \<open>\<open>DELETE /api/friends/:id\<close>: \<open>Transaction.deleteMany({ friend: id })\<close>, then
  \<open>Friend.findByIdAndDelete(id)\<close>.\<close>

definition Transaction_deleteMany :: "db \<Rightarrow> oid \<Rightarrow> db" where
  "Transaction_deleteMany d i = d\<lparr>transactions := filter (\<lambda>t. owner t \<noteq> i) (transactions d)\<rparr>"

definition Friend_findByIdAndDelete :: "db \<Rightarrow> oid \<Rightarrow> db" where
  "Friend_findByIdAndDelete d i = d\<lparr>friends := filter (\<lambda>f. fid f \<noteq> i) (friends d)\<rparr>"

definition deleteFriend :: "db \<Rightarrow> oid \<Rightarrow> db \<times> (http_error + string)" where
  "deleteFriend d i =
     (case Friend_findById d i of
        None \<Rightarrow> (d, Inl FriendNotFound)
      | Some fr \<Rightarrow>
          (Friend_findByIdAndDelete (Transaction_deleteMany d i) i,
           Inr ''Friend deleted successfully''))"

text \<open>\<open>GET /api/friends/:id/transactions\<close>, without the ordering.\<close>

definition Transaction_find :: "db \<Rightarrow> oid \<Rightarrow> transaction list" where
  "Transaction_find d i = filter (\<lambda>t. owner t = i) (transactions d)"

section \<open>The specification's reading of today's spend\<close>

text \<open>
  In the words of the specification: the sum of the amounts of the friend's debit
  transactions whose timestamp lies in the closed local day of the query.
\<close>

definition spec_todays_debits :: "db \<Rightarrow> oid \<Rightarrow> time \<Rightarrow> rat" where
  "spec_todays_debits d friendId now =
     sum_list (map amount (filter (\<lambda>t. owner t = friendId \<and> ttype t = Debit
                                        \<and> startOfDay now \<le> date t \<and> date t \<le> endOfDay now)
                                  (transactions d)))"

section \<open>Concrete stores\<close>

text \<open>A friend with balance 100 who owes nothing, alone in a store with an empty log.\<close>

definition friend_A :: friend where
  "friend_A = \<lparr>fid = 1, name = ''A'', whatsapp = ''+911234567890'', savedAmount = 0,
                totalBalance = 100, owedAmount = 0, lastUpdatedAt = 0\<rparr>"

definition store_A :: db where
  "store_A = \<lparr>friends = [friend_A], transactions = []\<rparr>"

definition env_configured :: env where
  "env_configured = \<lparr>ULTRAMSG_INSTANCE = Some ''instance1'', ULTRAMSG_TOKEN = Some ''secret'',
                      ULTRAMSG_INSTANCE_ID = Some ''instance1''\<rparr>"

definition env_unconfigured :: env where
  "env_unconfigured = \<lparr>ULTRAMSG_INSTANCE = None, ULTRAMSG_TOKEN = None,
                        ULTRAMSG_INSTANCE_ID = None\<rparr>"

text \<open>A loan of 500 and a debit of 30, both of friend 1 and both dated on day 0.\<close>

definition loan_500 :: transaction where
  "loan_500 = \<lparr>tid = 10, owner = 1, ttype = Loan, amount = 500, reason = ''rent'', tnote = None,
               date = 1000, previousBalance = Some 0, newBalance = Some 500, createdAt = 1000\<rparr>"

definition debit_30 :: transaction where
  "debit_30 = \<lparr>tid = 11, owner = 1, ttype = Debit, amount = 30, reason = [], tnote = None,
               date = 2000, previousBalance = None, newBalance = None, createdAt = 2000\<rparr>"

definition store_L :: db where
  "store_L = \<lparr>friends = [friend_A\<lparr>owedAmount := 500\<rparr>], transactions = [loan_500]\<rparr>"

definition store_B :: db where
  "store_B = \<lparr>friends = [friend_A\<lparr>owedAmount := 500\<rparr>], transactions = [loan_500, debit_30]\<rparr>"

text \<open>
  The store that a debit of 50 leaves behind under the original schema: the transaction
  has the type \<open>loan\<close> and the owed amount is still 0.
\<close>

definition loan_typed_50 :: transaction where
  "loan_typed_50 = \<lparr>tid = 9, owner = 1, ttype = Loan, amount = 50, reason = [], tnote = None,
                    date = 1000, previousBalance = None, newBalance = None, createdAt = 1000\<rparr>"

definition store_D :: db where
  "store_D = \<lparr>friends = [friend_A\<lparr>totalBalance := 50, lastUpdatedAt := 1000\<rparr>],
              transactions = [loan_typed_50]\<rparr>"

text \<open>
  The store that amending the loan of \<open>store_L\<close> by the increment \<open>-505\<close> leaves behind: the
  friend's owed amount is \<open>-5\<close>.
\<close>

definition store_N :: db where
  "store_N = \<lparr>friends = [friend_A\<lparr>owedAmount := - 5, lastUpdatedAt := 4000\<rparr>],
              transactions = [loan_500\<lparr>amount := - 5\<rparr>]\<rparr>"

section \<open>Lookups after updates\<close>

lemma find_map_update:
  assumes "\<And>x. key (g x) = key x"
  shows "find (\<lambda>x. key x = i) (map g xs) = map_option g (find (\<lambda>x. key x = i) xs)"
  using assms by (induction xs) auto

lemma find_map_replace:
  assumes "find (\<lambda>x. key x = i) xs = Some y" and "key z = i"
  shows "find (\<lambda>x. key x = i) (map (\<lambda>x. if key x = i then z else x) xs) = Some z"
  using assms by (induction xs) (auto split: if_splits)

lemma find_Some_key: "find (\<lambda>x. key x = i) xs = Some y \<Longrightarrow> key y = i"
  by (induction xs) (auto split: if_splits)

lemma Friend_findById_fid: "Friend_findById d i = Some fr \<Longrightarrow> fid fr = i"
  unfolding Friend_findById_def by (rule find_Some_key)

lemma Loan_findById_tid: "Loan_findById d i = Some t \<Longrightarrow> tid t = i"
  unfolding Loan_findById_def by (rule find_Some_key)

lemma Friend_save_find:
  "Friend_findById d i = Some fr \<Longrightarrow> fid fr' = i \<Longrightarrow>
   Friend_findById (Friend_save d fr') i = Some fr'"
  using find_map_replace [where key = fid and i = i and z = fr' and xs = "friends d"]
  by (simp add: Friend_findById_def Friend_save_def)

lemma Loan_save_find:
  "Loan_findById d i = Some t \<Longrightarrow> tid t' = i \<Longrightarrow> Loan_findById (Loan_save d t') i = Some t'"
  using find_map_replace [where key = tid and i = i and z = t' and xs = "transactions d"]
  by (simp add: Loan_findById_def Loan_save_def)

section \<open>The recomputation computes the ledger net\<close>

text \<open>The pipeline of \<open>recalcOwed\<close> refines the sum of the specification.\<close>

lemma group_stage_net:
  "(case group_stage (match_stage f ts) of Some (l, r) \<Rightarrow> l - r | None \<Rightarrow> 0) = ledger_net ts f"
proof -
  have l: "sum_list (map (\<lambda>t. if ttype t = Loan then amount t else 0) (match_stage f ts))
           = sum_list (map amount (filter (\<lambda>t. owner t = f \<and> ttype t = Loan) ts))"
    by (induction ts) (auto simp: match_stage_def)
  have r: "sum_list (map (\<lambda>t. if ttype t = Repay then amount t else 0) (match_stage f ts))
           = sum_list (map amount (filter (\<lambda>t. owner t = f \<and> ttype t = Repay) ts))"
    by (induction ts) (auto simp: match_stage_def)
  show ?thesis
  proof (cases "match_stage f ts = []")
    case True
    with l r show ?thesis by (simp add: group_stage_def ledger_net_def)
  next
    case False
    with l r show ?thesis by (simp add: group_stage_def ledger_net_def)
  qed
qed

lemma recalcOwed_total: "snd (recalcOwed d f now) = ledger_net (transactions d) f"
  using group_stage_net [of f "transactions d"] by (simp add: recalcOwed_def Let_def)

lemma recalcOwed_transactions: "transactions (fst (recalcOwed d f now)) = transactions d"
  by (simp add: recalcOwed_def Let_def Friend_findByIdAndUpdate_def)

lemma recalcOwed_find:
  "Friend_findById (fst (recalcOwed d f now)) g =
     map_option (\<lambda>x. if fid x = f
                      then x\<lparr>owedAmount := ledger_net (transactions d) f, lastUpdatedAt := now\<rparr>
                      else x)
       (Friend_findById d g)"
proof -
  have "fst (recalcOwed d f now) = Friend_findByIdAndUpdate d f (ledger_net (transactions d) f) now"
    using group_stage_net [of f "transactions d"] by (simp add: recalcOwed_def Let_def)
  then show ?thesis
    by (simp add: Friend_findById_def Friend_findByIdAndUpdate_def
          find_map_update [where key = fid])
qed

lemma recalcOwed_consistent:
  "Friend_findById d f = Some fr \<Longrightarrow> owed_consistent (fst (recalcOwed d f now)) f"
  by (simp add: owed_consistent_def recalcOwed_find recalcOwed_transactions Friend_findById_fid)

section \<open>What the loan routes leave in the store\<close>

lemma createLoan_store:
  assumes "Friend_findById d i = Some fr" and "truthy amt" and "Number amt = Num a" and "0 < a"
  shows "fst (createLoan e p newId now d (Some i) amt rsn sm)
           = fst (recalcOwed (Transaction_create d
                    \<lparr>tid = newId, owner = i, ttype = Loan, amount = a, reason = rsn, tnote = None,
                     date = now, previousBalance = Some (owedAmount fr),
                     newBalance = Some (owedAmount fr + a), createdAt = now\<rparr>) i now)"
  using assms Friend_findById_fid [OF assms(1)]
  by (simp add: createLoan_def Let_def split: sum.splits)

lemma createLoan_persisted:
  fixes fr :: friend
  defines "loan \<equiv> \<lambda>newId i a rsn now.
             \<lparr>tid = newId, owner = i, ttype = Loan, amount = a, reason = rsn, tnote = None,
              date = now, previousBalance = Some (owedAmount fr),
              newBalance = Some (owedAmount fr + a), createdAt = now\<rparr>"
  assumes "Friend_findById d i = Some fr" and "truthy amt" and "Number amt = Num a" and "0 < a"
  shows "transactions (fst (createLoan e p newId now d (Some i) amt rsn sm))
           = transactions d @ [loan newId i a rsn now]"
    and "Friend_findById (fst (createLoan e p newId now d (Some i) amt rsn sm)) i
           = Some (fr\<lparr>owedAmount := ledger_net (transactions d @ [loan newId i a rsn now]) i,
                      lastUpdatedAt := now\<rparr>)"
    and "owed_consistent (fst (createLoan e p newId now d (Some i) amt rsn sm)) i"
proof -
  let ?d1 = "Transaction_create d (loan newId i a rsn now)"
  have s: "fst (createLoan e p newId now d (Some i) amt rsn sm) = fst (recalcOwed ?d1 i now)"
    using createLoan_store [OF assms(2-5)] by (simp add: loan_def)
  have f: "Friend_findById ?d1 i = Some fr"
    using assms(2) by (simp add: Friend_findById_def Transaction_create_def)
  have t: "transactions ?d1 = transactions d @ [loan newId i a rsn now]"
    by (simp add: Transaction_create_def)
  show "transactions (fst (createLoan e p newId now d (Some i) amt rsn sm))
           = transactions d @ [loan newId i a rsn now]"
    by (simp add: s recalcOwed_transactions t)
  show "Friend_findById (fst (createLoan e p newId now d (Some i) amt rsn sm)) i
           = Some (fr\<lparr>owedAmount := ledger_net (transactions d @ [loan newId i a rsn now]) i,
                      lastUpdatedAt := now\<rparr>)"
    using f Friend_findById_fid [OF assms(2)] by (simp add: s recalcOwed_find t)
  show "owed_consistent (fst (createLoan e p newId now d (Some i) amt rsn sm)) i"
    using recalcOwed_consistent [OF f] by (simp add: s)
qed

text \<open>The store that \<open>POST /api/loans\<close> leaves does not depend on the environment, on the
  provider or on the notify flag.\<close>

lemma createLoan_store_indep:
  "fst (createLoan e p newId now d friendId amt rsn sm)
     = fst (createLoan e' p' newId now d friendId amt rsn sm')"
  by (simp add: createLoan_def Let_def split: option.splits number.splits sum.splits)

lemma patch_finish_store:
  fixes t' :: transaction and rsn :: "string option"
  defines "t'' \<equiv> (case rsn of None \<Rightarrow> t' | Some r \<Rightarrow> t'\<lparr>reason := r\<rparr>)"
  assumes "Loan_findById d i = Some t" and "tid t' = i"
  shows "Loan_findById (fst (patch_finish now d t' rsn)) i = Some t''"
    and "snd (patch_finish now d t' rsn)
           = Inr (t'', Friend_findById (fst (patch_finish now d t' rsn)) (owner t'))"
proof -
  have k: "tid t'' = i" and o: "owner t'' = owner t'"
    using assms(3) by (auto simp: t''_def split: option.splits)
  have "Loan_findById (Loan_save d t'') i = Some t''"
    using assms(2) k by (rule Loan_save_find)
  then have "Loan_findById (fst (recalcOwed (Loan_save d t'') (owner t'') now)) i = Some t''"
    by (simp add: Loan_findById_def recalcOwed_transactions)
  then show "Loan_findById (fst (patch_finish now d t' rsn)) i = Some t''"
    by (simp add: patch_finish_def Let_def t''_def)
  show "snd (patch_finish now d t' rsn)
           = Inr (t'', Friend_findById (fst (patch_finish now d t' rsn)) (owner t'))"
    using o by (simp add: patch_finish_def Let_def t''_def)
qed

lemma patch_finish_consistent:
  assumes "Friend_findById d (owner t') = Some fr"
  shows "owed_consistent (fst (patch_finish now d t' rsn)) (owner t')"
proof -
  let ?t = "case rsn of None \<Rightarrow> t' | Some r \<Rightarrow> t'\<lparr>reason := r\<rparr>"
  have o: "owner ?t = owner t'" by (simp split: option.splits)
  have "Friend_findById (Loan_save d ?t) (owner t') = Some fr"
    using assms by (simp add: Friend_findById_def Loan_save_def)
  then have "owed_consistent (fst (recalcOwed (Loan_save d ?t) (owner t') now)) (owner t')"
    by (rule recalcOwed_consistent)
  then show ?thesis
    using o by (simp add: patch_finish_def Let_def)
qed

section \<open>The owed amount after a loan is recorded\<close>

text \<open>The store \<open>store_D\<close> is what a debit of 50 leaves under the original schema default.\<close>

lemma store_D_reached:
  "fst (deduct schema_default_original env_configured (Delivered ''ok'') 9 1000 1000
          store_A (ObjectId 1) (JNumber 50) None) = store_D"
  by (simp add: deduct_def Friend_findById_cast_def Friend_findById_def store_A_def friend_A_def
        schema_default_original_def Transaction_create_def Friend_save_def Let_def store_D_def
        loan_typed_50_def)

text \<open>
  C1. The claim says that after every creation of a loan transaction the stored owed
  amount equals the ledger net, because the operation replaces the stored value by the
  recomputation. \<open>POST /api/loans\<close> does so. \<open>POST /:id/loan\<close> of \<open>routes/friends.js\<close>
  adds the amount to the stored value instead: on a store whose log holds a loan of 50
  that the stored owed amount 0 does not reflect, a loan of 100 leaves the stored owed
  amount 100 while the ledger net is 150; \<open>POST /api/loans\<close> on the same store leaves
  the two equal.
\<close>

theorem friendLoan_increments_in_place:
  "Friend_findById
     (fst (friendLoan env_configured (Delivered ''ok'') 12 3000 store_D 1 (JNumber 100) None False)) 1
     = Some (friend_A\<lparr>totalBalance := 50, owedAmount := 100, lastUpdatedAt := 3000\<rparr>)
   \<and> ledger_net
        (transactions
          (fst (friendLoan env_configured (Delivered ''ok'') 12 3000 store_D 1 (JNumber 100) None False)))
        1 = 150
   \<and> \<not> owed_consistent
          (fst (friendLoan env_configured (Delivered ''ok'') 12 3000 store_D 1 (JNumber 100) None False)) 1"
  by (simp add: friendLoan_def Friend_findById_def store_D_def friend_A_def
        loan_typed_50_def Transaction_create_def Friend_save_def Let_def ledger_net_def
        owed_consistent_def)

text \<open>The same request to \<open>POST /api/loans\<close> on the same store.\<close>

lemma createLoan_recomputes_on_store_D:
  "Friend_findById
     (fst (createLoan env_configured (Delivered ''ok'') 12 3000 store_D (Some 1) (JNumber 100) [] False)) 1
     = Some (friend_A\<lparr>totalBalance := 50, owedAmount := 150, lastUpdatedAt := 3000\<rparr>)
   \<and> owed_consistent
        (fst (createLoan env_configured (Delivered ''ok'') 12 3000 store_D (Some 1) (JNumber 100) [] False)) 1"
  by (simp add: createLoan_def Friend_findById_def store_D_def friend_A_def
        loan_typed_50_def Transaction_create_def Let_def ledger_net_def
        owed_consistent_def recalcOwed_def match_stage_def group_stage_def
        Friend_findByIdAndUpdate_def)

section \<open>Repayment\<close>

text \<open>The store \<open>store_N\<close>, with a negative owed amount, is left by an amendment.\<close>

lemma store_N_reached:
  "fst (patchLoan 4000 store_L 10 JUndefined (JNumber (- 505)) None) = store_N"
  by (simp add: patchLoan_def patch_finish_def Loan_findById_def store_L_def loan_500_def
        Loan_save_def recalcOwed_def match_stage_def group_stage_def
        Friend_findByIdAndUpdate_def Let_def friend_A_def store_N_def)

text \<open>
  C2, as the code has it. The claim says that every repayment request with an amount
  above the current owed amount is rejected with OverRepayment. The amount is validated
  first: for a friend whose owed amount is \<open>-5\<close>, the amount \<open>-1\<close> is above it and is
  rejected as an invalid amount.
\<close>

theorem friendRepay_counterexample:
  "Friend_findById store_N 1 = Some (friend_A\<lparr>owedAmount := - 5, lastUpdatedAt := 4000\<rparr>)
   \<and> owedAmount (friend_A\<lparr>owedAmount := - 5, lastUpdatedAt := 4000\<rparr>) < - 1
   \<and> friendRepay 12 5000 store_N 1 (JNumber (- 1)) None = (store_N, Inl InvalidAmount)
   \<and> InvalidAmount \<noteq> OverRepayment"
  by (simp add: friendRepay_def Friend_findById_def store_N_def friend_A_def InvalidAmount_def
        OverRepayment_def)

text \<open>
  C2, amended: for an existing friend and a repayment request whose amount is the number
  \<open>a\<close>: if \<open>a\<close> is not positive the request is rejected as an invalid amount; if \<open>a\<close> is
  positive and above the stored owed amount it is rejected with OverRepayment; in both
  cases the store is unchanged. If \<open>0 < a\<close> and \<open>a\<close> is at most the owed amount, the request
  succeeds, appends one repay transaction of the amount \<open>a\<close> and stores the owed amount
  less \<open>a\<close>, which is not negative and is exactly 0 when \<open>a\<close> equals the owed amount.
\<close>

theorem friendRepay_cases:
  fixes fr :: friend and nt :: "string option"
  defines "tx \<equiv> \<lambda>newId i a now.
             \<lparr>tid = newId, owner = i, ttype = Repay, amount = a, reason = [],
              tnote = Some (note_or nt ''Repayment''), date = now,
              previousBalance = Some (owedAmount fr), newBalance = Some (owedAmount fr - a),
              createdAt = now\<rparr>"
  assumes "Friend_findById d i = Some fr" and "Number amt = Num a"
  shows "(a \<le> 0 \<longrightarrow> friendRepay newId now d i amt nt = (d, Inl InvalidAmount))
       \<and> (0 < a \<and> owedAmount fr < a \<longrightarrow>
            friendRepay newId now d i amt nt = (d, Inl OverRepayment))
       \<and> (0 < a \<and> a \<le> owedAmount fr \<longrightarrow>
            snd (friendRepay newId now d i amt nt)
              = Inr (tx newId i a now, fr\<lparr>owedAmount := owedAmount fr - a, lastUpdatedAt := now\<rparr>)
            \<and> transactions (fst (friendRepay newId now d i amt nt))
                = transactions d @ [tx newId i a now]
            \<and> Friend_findById (fst (friendRepay newId now d i amt nt)) i
                = Some (fr\<lparr>owedAmount := owedAmount fr - a, lastUpdatedAt := now\<rparr>)
            \<and> 0 \<le> owedAmount fr - a)
       \<and> (0 < a \<and> a = owedAmount fr \<longrightarrow>
            Friend_findById (fst (friendRepay newId now d i amt nt)) i
              = Some (fr\<lparr>owedAmount := 0, lastUpdatedAt := now\<rparr>))"
proof -
  have k: "fid fr = i" using assms(2) by (rule Friend_findById_fid)
  let ?fr = "fr\<lparr>owedAmount := owedAmount fr - a, lastUpdatedAt := now\<rparr>"
  have f: "Friend_findById (Transaction_create d (tx newId i a now)) i = Some fr"
    using assms(2) by (simp add: Friend_findById_def Transaction_create_def)
  have s: "Friend_findById (Friend_save (Transaction_create d (tx newId i a now)) ?fr) i = Some ?fr"
    using f k by (simp add: Friend_save_find)
  have ok: "friendRepay newId now d i amt nt
              = (Friend_save (Transaction_create d (tx newId i a now)) ?fr,
                 Inr (tx newId i a now, ?fr))"
    if "0 < a" "a \<le> owedAmount fr"
    using that assms(2,3) k by (simp add: friendRepay_def Let_def tx_def)
  have t: "transactions (Friend_save (Transaction_create d (tx newId i a now)) ?fr)
             = transactions d @ [tx newId i a now]"
    by (simp add: Friend_save_def Transaction_create_def)
  have c1: "a \<le> 0 \<longrightarrow> friendRepay newId now d i amt nt = (d, Inl InvalidAmount)"
    using assms(2,3) by (simp add: friendRepay_def)
  have c2: "0 < a \<and> owedAmount fr < a \<longrightarrow>
              friendRepay newId now d i amt nt = (d, Inl OverRepayment)"
    using assms(2,3) by (simp add: friendRepay_def Let_def)
  show ?thesis
    using c1 c2 ok s t by auto
qed

theorem friendRepay_cases_witness:
  "Friend_findById store_L 1 = Some (friend_A\<lparr>owedAmount := 500\<rparr>)
   \<and> friendRepay 12 3000 store_L 1 (JNumber 501) None = (store_L, Inl OverRepayment)
   \<and> friendRepay 12 3000 store_L 1 (JNumber 0) None = (store_L, Inl InvalidAmount)
   \<and> Friend_findById (fst (friendRepay 12 3000 store_L 1 (JNumber 200) None)) 1
       = Some (friend_A\<lparr>owedAmount := 300, lastUpdatedAt := 3000\<rparr>)
   \<and> Friend_findById (fst (friendRepay 12 3000 store_L 1 (JNumber 500) None)) 1
       = Some (friend_A\<lparr>owedAmount := 0, lastUpdatedAt := 3000\<rparr>)"
proof -
  have h: "Friend_findById store_L 1 = Some (friend_A\<lparr>owedAmount := 500\<rparr>)"
    by (simp add: Friend_findById_def store_L_def friend_A_def)
  from friendRepay_cases [OF h, of "JNumber 501" 501 12 3000 None]
       friendRepay_cases [OF h, of "JNumber 0" 0 12 3000 None]
       friendRepay_cases [OF h, of "JNumber 200" 200 12 3000 None]
       friendRepay_cases [OF h, of "JNumber 500" 500 12 3000 None]
       h show ?thesis by simp
qed

section \<open>The debit route\<close>

text \<open>
  C3, as the code has it. The claim says that the transaction written by a debit carries the
  snapshots \<open>previousBalance = b\<close> and \<open>newBalance = b - a\<close>. The handler constructs the
  transaction from \<open>friend\<close>, \<open>amount\<close> and \<open>note\<close> only: debiting 30 from the balance 100
  writes a transaction whose two snapshots are \<open>null\<close>.
\<close>

theorem deduct_snapshot_counterexample:
  "totalBalance friend_A = 100
   \<and> map previousBalance
         (transactions (fst (deduct schema_default_fixed env_configured (Delivered ''ok'') 7 1000 1000
                               store_A (ObjectId 1) (JNumber 30) None))) = [None]
   \<and> map newBalance
         (transactions (fst (deduct schema_default_fixed env_configured (Delivered ''ok'') 7 1000 1000
                               store_A (ObjectId 1) (JNumber 30) None))) = [None]
   \<and> fst (snd (deduct schema_default_fixed env_configured (Delivered ''ok'') 7 1000 1000
                  store_A (ObjectId 1) (JNumber 30) None))
       = Inr (friend_A\<lparr>totalBalance := 70, lastUpdatedAt := 1000\<rparr>,
              \<lparr>tid = 7, owner = 1, ttype = Debit, amount = 30, reason = [], tnote = None,
               date = 1000, previousBalance = None, newBalance = None, createdAt = 1000\<rparr>)"
  by (simp add: deduct_def Friend_findById_cast_def Friend_findById_def store_A_def friend_A_def
        schema_default_fixed_def Transaction_create_def Friend_save_def Let_def)

text \<open>
  C3, amended: for a friend with balance \<open>b\<close> and a debit of a positive amount \<open>a\<close>, the
  handler appends one transaction with the amount \<open>a\<close>, the date of its construction, the
  type \<open>debit\<close> (the default of the fixed schema) and both snapshots \<open>null\<close>; it stores the
  balance \<open>b - a\<close>, not clamped, and \<open>lastUpdatedAt\<close> equal to the date of the transaction;
  the response carries the updated friend and the transaction.
\<close>

theorem deduct_effect:
  fixes fr :: friend and nt :: "string option"
  defines "tx \<equiv> \<lambda>newId friendId a now.
             \<lparr>tid = newId, owner = friendId, ttype = Debit, amount = a, reason = [], tnote = nt,
              date = now, previousBalance = None, newBalance = None, createdAt = now\<rparr>"
  assumes "Friend_findById d friendId = Some fr" and "Number amt = Num a" and "0 < a"
  shows "fst (snd (deduct schema_default_fixed e p newId now later d (ObjectId friendId) amt nt))
           = Inr (fr\<lparr>totalBalance := totalBalance fr - a, lastUpdatedAt := now\<rparr>,
                  tx newId friendId a now)
         \<and> transactions
              (fst (deduct schema_default_fixed e p newId now later d (ObjectId friendId) amt nt))
             = transactions d @ [tx newId friendId a now]
         \<and> Friend_findById
              (fst (deduct schema_default_fixed e p newId now later d (ObjectId friendId) amt nt))
              friendId
             = Some (fr\<lparr>totalBalance := totalBalance fr - a, lastUpdatedAt := now\<rparr>)"
proof -
  have i: "fid fr = friendId" using assms(2) by (rule Friend_findById_fid)
  let ?fr = "fr\<lparr>totalBalance := totalBalance fr - a, lastUpdatedAt := now\<rparr>"
  have f: "Friend_findById (Transaction_create d (tx newId friendId a now)) friendId = Some fr"
    using assms(2) by (simp add: Friend_findById_def Transaction_create_def)
  have "Friend_findById (Friend_save (Transaction_create d (tx newId friendId a now)) ?fr) friendId
          = Some ?fr"
    using f i by (simp add: Friend_save_find)
  then show ?thesis
    using assms(2-) i
    by (simp add: deduct_def Friend_findById_cast_def Let_def schema_default_fixed_def tx_def)
       (simp add: Friend_save_def Transaction_create_def)
qed

theorem deduct_effect_witness:
  "Friend_findById store_A 1 = Some friend_A \<and> Number (JNumber 150) = Num 150 \<and> (0::rat) < 150
   \<and> Friend_findById
        (fst (deduct schema_default_fixed env_configured (Delivered ''ok'') 7 1000 1000
                store_A (ObjectId 1) (JNumber 150) None)) 1
       = Some (friend_A\<lparr>totalBalance := - 50, lastUpdatedAt := 1000\<rparr>)"
proof -
  have h: "Friend_findById store_A 1 = Some friend_A"
    by (simp add: Friend_findById_def store_A_def friend_A_def)
  have b: "totalBalance friend_A = 100"
    by (simp add: friend_A_def)
  from deduct_effect [OF h, of "JNumber 150" 150 env_configured "Delivered ''ok''" 7 1000 1000 None]
    h b show ?thesis by simp
qed




section \<open>Today's spend\<close>

lemma foldl_plus_sum_list:
  fixes acc :: rat
  shows "foldl (\<lambda>s t. s + g t) acc xs = acc + sum_list (map g xs)"
  by (induction xs arbitrary: acc) simp_all

text \<open>The reduction of \<open>todaysSpent\<close> adds the amount of every transaction of the friend
  that is dated in the window, whatever its type.\<close>

lemma todaysSpent_sum:
  "todaysSpent d friendId now =
     sum_list (map amount (filter (\<lambda>t. owner t = friendId
                                        \<and> startOfDay now \<le> date t \<and> date t \<le> endOfDay now)
                                  (transactions d)))"
  by (simp add: todaysSpent_def foldl_plus_sum_list)

text \<open>The window is the closed local day of the query: it holds the instant of the query,
  and the instant after its last millisecond starts the next day.\<close>

lemma day_window:
  "startOfDay now \<le> now \<and> now \<le> endOfDay now
   \<and> startOfDay (endOfDay now) = startOfDay now
   \<and> startOfDay (endOfDay now + 1) = startOfDay now + 86400000"
proof -
  have m: "0 \<le> now mod 86400000" "now mod 86400000 < 86400000" by simp_all
  have s0: "startOfDay now = 86400000 * (now div 86400000)"
    by (simp add: startOfDay_def minus_mod_eq_mult_div)
  have a: "startOfDay now \<le> now" using m by (simp add: startOfDay_def)
  have b: "now \<le> endOfDay now" using m unfolding endOfDay_def startOfDay_def by linarith
  have "(86400000 * (now div 86400000) + 86399999) mod 86400000 = (86399999::int)"
    by simp
  then have c: "startOfDay (endOfDay now) = startOfDay now"
    unfolding endOfDay_def s0 by (simp add: startOfDay_def)
  have "(86400000 * (now div 86400000) + 86399999 + 1) mod 86400000 = (0::int)"
    by simp
  then have d: "startOfDay (endOfDay now + 1) = startOfDay now + 86400000"
    unfolding endOfDay_def s0 by (simp add: startOfDay_def)
  from a b c d show ?thesis by simp
qed

text \<open>Where every transaction of the friend in the window is a debit, the result is the sum
  of the specification; it is 0 where the window holds no transaction of the friend.\<close>

lemma todaysSpent_debits_only:
  assumes "\<forall>t \<in> set (transactions d).
             owner t = friendId \<and> startOfDay now \<le> date t \<and> date t \<le> endOfDay now
             \<longrightarrow> ttype t = Debit"
  shows "todaysSpent d friendId now = spec_todays_debits d friendId now"
proof -
  have "filter (\<lambda>t. owner t = friendId \<and> startOfDay now \<le> date t \<and> date t \<le> endOfDay now)
          (transactions d)
        = filter (\<lambda>t. owner t = friendId \<and> ttype t = Debit
                       \<and> startOfDay now \<le> date t \<and> date t \<le> endOfDay now) (transactions d)"
    using assms by (intro filter_cong) auto
  then show ?thesis
    by (simp add: todaysSpent_sum spec_todays_debits_def)
qed

lemma todaysSpent_empty_window:
  assumes "\<forall>t \<in> set (transactions d).
             \<not> (owner t = friendId \<and> startOfDay now \<le> date t \<and> date t \<le> endOfDay now)"
  shows "todaysSpent d friendId now = 0"
proof -
  have "filter (\<lambda>t. owner t = friendId \<and> startOfDay now \<le> date t \<and> date t \<le> endOfDay now)
          (transactions d) = []"
    using assms by (simp add: filter_empty_conv)
  then show ?thesis
    by (simp add: todaysSpent_sum)
qed

text \<open>
  C4. The claim says that today's spend is the sum of the friend's debits of the day, and
  of debits only. The query of \<open>todaysSpent\<close> selects on the friend and the date and not
  on the type: for a friend with a loan of 500 and a debit of 30 on the day of the query
  it returns 530, where the sum of the day's debits is 30.
\<close>

theorem todaysSpent_counts_loans:
  "todaysSpent store_B 1 3000 = 530 \<and> spec_todays_debits store_B 1 3000 = 30"
  by (simp add: todaysSpent_def spec_todays_debits_def store_B_def loan_500_def debit_30_def
        startOfDay_def endOfDay_def)

section \<open>Notification and the ledger\<close>

text \<open>
  C6: a failing notification undoes nothing. When a loan is created with the notify flag,
  the credentials are set and the call to the provider throws, the handler answers with
  the loan, the friend as recomputed and the send failure, and the store holds the new
  loan and an owed amount equal to the ledger net. The store that creating a loan leaves
  is the same for every outcome of the provider and with or without the notify flag. The
  store and the response of a debit, whose send runs in the background, are the same for
  every environment and outcome of the provider, and so are those of the loan handler of
  \<open>routes/friends.js\<close>, which only logs a failed send.
\<close>

theorem notification_never_undoes_write:
  fixes fr :: friend
  defines "loan \<equiv> \<lambda>newId i a rsn now.
             \<lparr>tid = newId, owner = i, ttype = Loan, amount = a, reason = rsn, tnote = None,
              date = now, previousBalance = Some (owedAmount fr),
              newBalance = Some (owedAmount fr + a), createdAt = now\<rparr>"
  shows "(Friend_findById d i = Some fr \<and> truthy amt \<and> Number amt = Num a \<and> 0 < a
          \<and> is_set (ULTRAMSG_INSTANCE e) \<and> is_set (ULTRAMSG_TOKEN e) \<longrightarrow>
            snd (createLoan e (Failed msg) newId now d (Some i) amt rsn True)
              = Inr (loan newId i a rsn now,
                     Some (fr\<lparr>owedAmount := ledger_net (transactions d @ [loan newId i a rsn now]) i,
                               lastUpdatedAt := now\<rparr>),
                     SendFailure msg)
            \<and> transactions (fst (createLoan e (Failed msg) newId now d (Some i) amt rsn True))
                = transactions d @ [loan newId i a rsn now]
            \<and> owed_consistent (fst (createLoan e (Failed msg) newId now d (Some i) amt rsn True)) i)
       \<and> fst (createLoan e p newId now d friendId amt rsn sm)
           = fst (createLoan e (Delivered dat) newId now d friendId amt rsn False)
       \<and> fst (deduct dflt e p newId now later d fp amt nt)
           = fst (deduct dflt e' p' newId now later d fp amt nt)
       \<and> fst (snd (deduct dflt e p newId now later d fp amt nt))
           = fst (snd (deduct dflt e' p' newId now later d fp amt nt))
       \<and> fst (friendLoan e p newId now d j amt nt sm)
           = fst (friendLoan e' p' newId now d j amt nt sm')
       \<and> fst (snd (friendLoan e p newId now d j amt nt sm))
           = fst (snd (friendLoan e' p' newId now d j amt nt sm'))"
proof -
  have a: "snd (createLoan e (Failed msg) newId now d (Some i) amt rsn True)
              = Inr (loan newId i a rsn now,
                     Some (fr\<lparr>owedAmount := ledger_net (transactions d @ [loan newId i a rsn now]) i,
                               lastUpdatedAt := now\<rparr>),
                     SendFailure msg)
            \<and> transactions (fst (createLoan e (Failed msg) newId now d (Some i) amt rsn True))
                = transactions d @ [loan newId i a rsn now]
            \<and> owed_consistent (fst (createLoan e (Failed msg) newId now d (Some i) amt rsn True)) i"
    if h: "Friend_findById d i = Some fr" "truthy amt" "Number amt = Num a" "0 < a"
      and c: "is_set (ULTRAMSG_INSTANCE e)" "is_set (ULTRAMSG_TOKEN e)"
  proof -
    note P = createLoan_persisted [OF h, of e "Failed msg" newId now rsn True]
    have k: "fid fr = i" using h(1) by (rule Friend_findById_fid)
    have "snd (createLoan e (Failed msg) newId now d (Some i) amt rsn True)
            = Inr (loan newId i a rsn now,
                   Friend_findById (fst (createLoan e (Failed msg) newId now d (Some i) amt rsn True)) i,
                   SendFailure msg)"
      using h c k by (simp add: createLoan_def Let_def sendWhatsAppMessage_def loan_def)
    with P show ?thesis by (simp add: loan_def)
  qed
  have b: "fst (deduct dflt e p newId now later d fp amt nt)
           = fst (deduct dflt e' p' newId now later d fp amt nt)"
    by (simp add: deduct_def Let_def split: number.splits option.splits sum.splits)
  have c: "fst (snd (deduct dflt e p newId now later d fp amt nt))
           = fst (snd (deduct dflt e' p' newId now later d fp amt nt))"
    by (simp add: deduct_def Let_def split: number.splits option.splits sum.splits)
  have f: "fst (friendLoan e p newId now d j amt nt sm)
           = fst (friendLoan e' p' newId now d j amt nt sm')"
    by (simp add: friendLoan_def Let_def split: number.splits option.splits)
  have g: "fst (snd (friendLoan e p newId now d j amt nt sm))
           = fst (snd (friendLoan e' p' newId now d j amt nt sm'))"
    by (simp add: friendLoan_def Let_def split: number.splits option.splits)
  show ?thesis
    using a b c f g
      createLoan_store_indep [of e p newId now d friendId amt rsn sm e "Delivered dat" False]
    by blast
qed

theorem notification_never_undoes_write_witness:
  "Friend_findById store_A 1 = Some friend_A \<and> truthy (JNumber 500)
   \<and> Number (JNumber 500) = Num 500
   \<and> is_set (ULTRAMSG_INSTANCE env_configured) \<and> is_set (ULTRAMSG_TOKEN env_configured)
   \<and> snd (createLoan env_configured (Failed ''timeout'') 10 1000 store_A (Some 1) (JNumber 500)
             ''rent'' True)
       = Inr (loan_500, Some (friend_A\<lparr>owedAmount := 500, lastUpdatedAt := 1000\<rparr>),
              SendFailure ''timeout'')
   \<and> transactions (fst (createLoan env_configured (Failed ''timeout'') 10 1000 store_A (Some 1)
                           (JNumber 500) ''rent'' True))
       = [loan_500]"
proof -
  have h: "Friend_findById store_A 1 = Some friend_A"
    by (simp add: Friend_findById_def store_A_def friend_A_def)
  have c: "is_set (ULTRAMSG_INSTANCE env_configured) \<and> is_set (ULTRAMSG_TOKEN env_configured)"
    by (simp add: env_configured_def)
  have o: "owedAmount friend_A = 0" "transactions store_A = []"
    by (simp_all add: friend_A_def store_A_def)
  from notification_never_undoes_write
         [of store_A 1 friend_A "JNumber 500" 500 env_configured "''timeout''" 10 1000 "''rent''"]
    h c o show ?thesis
    by (simp add: loan_500_def ledger_net_def)
qed

text \<open>
  C7: when a loan is created with the notify flag and the instance id or the token is not
  set, the response is the error 503; the store then holds the new loan and the recomputed
  owed amount, and is the store that the same request without the notify flag leaves.
\<close>

theorem createLoan_unconfigured:
  fixes fr :: friend
  defines "loan \<equiv> \<lambda>newId i a rsn now.
             \<lparr>tid = newId, owner = i, ttype = Loan, amount = a, reason = rsn, tnote = None,
              date = now, previousBalance = Some (owedAmount fr),
              newBalance = Some (owedAmount fr + a), createdAt = now\<rparr>"
  assumes "Friend_findById d i = Some fr" and "truthy amt" and "Number amt = Num a" and "0 < a"
    and "\<not> is_set (ULTRAMSG_INSTANCE e) \<or> \<not> is_set (ULTRAMSG_TOKEN e)"
  shows "snd (createLoan e p newId now d (Some i) amt rsn True) = Inl NotificationUnavailable
         \<and> NotificationUnavailable = HttpError 503 ''UltraMsg not configured''
         \<and> transactions (fst (createLoan e p newId now d (Some i) amt rsn True))
             = transactions d @ [loan newId i a rsn now]
         \<and> Friend_findById (fst (createLoan e p newId now d (Some i) amt rsn True)) i
             = Some (fr\<lparr>owedAmount := ledger_net (transactions d @ [loan newId i a rsn now]) i,
                        lastUpdatedAt := now\<rparr>)
         \<and> owed_consistent (fst (createLoan e p newId now d (Some i) amt rsn True)) i
         \<and> fst (createLoan e p newId now d (Some i) amt rsn True)
             = fst (createLoan e p newId now d (Some i) amt rsn False)"
proof -
  have r: "snd (createLoan e p newId now d (Some i) amt rsn True) = Inl NotificationUnavailable"
    using assms(2-) by (auto simp: createLoan_def Let_def)
  show ?thesis
    using r createLoan_persisted [OF assms(2-5), of e p newId now rsn True]
      createLoan_store_indep [of e p newId now d "Some i" amt rsn True e p False]
    by (simp add: loan_def NotificationUnavailable_def)
qed

theorem createLoan_unconfigured_witness:
  "Friend_findById store_A 1 = Some friend_A \<and> truthy (JNumber 500)
   \<and> Number (JNumber 500) = Num 500
   \<and> \<not> is_set (ULTRAMSG_INSTANCE env_unconfigured)
   \<and> snd (createLoan env_unconfigured (Delivered ''ok'') 10 1000 store_A (Some 1) (JNumber 500)
             ''rent'' True)
       = Inl (HttpError 503 ''UltraMsg not configured'')
   \<and> fst (createLoan env_unconfigured (Delivered ''ok'') 10 1000 store_A (Some 1) (JNumber 500)
             ''rent'' True)
       = \<lparr>friends = [friend_A\<lparr>owedAmount := 500, lastUpdatedAt := 1000\<rparr>],
          transactions = [loan_500]\<rparr>"
proof -
  have h: "Friend_findById store_A 1 = Some friend_A"
    by (simp add: Friend_findById_def store_A_def friend_A_def)
  have u: "\<not> is_set (ULTRAMSG_INSTANCE env_unconfigured)
           \<or> \<not> is_set (ULTRAMSG_TOKEN env_unconfigured)"
    by (simp add: env_unconfigured_def)
  have s: "fst (createLoan env_unconfigured (Delivered ''ok'') 10 1000 store_A (Some 1)
                  (JNumber 500) ''rent'' True)
       = \<lparr>friends = [friend_A\<lparr>owedAmount := 500, lastUpdatedAt := 1000\<rparr>],
          transactions = [loan_500]\<rparr>"
    by (simp add: createLoan_def Friend_findById_def store_A_def friend_A_def loan_500_def
          Transaction_create_def recalcOwed_def match_stage_def group_stage_def
          Friend_findByIdAndUpdate_def Let_def env_unconfigured_def)
  from createLoan_unconfigured
         [OF h _ _ _ u, of "JNumber 500" 500 "Delivered ''ok''" 10 1000 "''rent''"]
    h u s show ?thesis
    by (simp add: NotificationUnavailable_def env_unconfigured_def)
qed

section \<open>Deleting a loan entry\<close>

text \<open>
  C8: for a stored transaction \<open>t\<close> whose friend exists, the delete handler leaves the log
  without \<open>t\<close> and stores as the friend's owed amount what the recomputation yields on the
  log without \<open>t\<close>, which is the ledger net of that log; when the log without \<open>t\<close> holds no
  loan or repay entry of the friend, the stored owed amount is 0.
\<close>

theorem deleteLoan_recompute:
  fixes d :: db
  defines "rest \<equiv> \<lambda>i. filter (\<lambda>u. tid u \<noteq> i) (transactions d)"
  assumes "Loan_findById d i = Some t" and "Friend_findById d (owner t) = Some fr"
  shows "transactions (fst (deleteLoan now d i)) = rest i
         \<and> Friend_findById (fst (deleteLoan now d i)) (owner t)
             = Some (fr\<lparr>owedAmount := snd (recalcOwed (d\<lparr>transactions := rest i\<rparr>) (owner t) now),
                        lastUpdatedAt := now\<rparr>)
         \<and> snd (recalcOwed (d\<lparr>transactions := rest i\<rparr>) (owner t) now) = ledger_net (rest i) (owner t)
         \<and> (match_stage (owner t) (rest i) = [] \<longrightarrow>
              Friend_findById (fst (deleteLoan now d i)) (owner t)
                = Some (fr\<lparr>owedAmount := 0, lastUpdatedAt := now\<rparr>))"
proof -
  have ti: "tid t = i" using assms(2) by (rule Loan_findById_tid)
  have fi: "fid fr = owner t" using assms(3) by (rule Friend_findById_fid)
  let ?d1 = "Loan_deleteOne d t"
  have d1: "?d1 = d\<lparr>transactions := rest i\<rparr>"
    by (simp add: Loan_deleteOne_def rest_def ti)
  have f1: "Friend_findById ?d1 (owner t) = Some fr"
    using assms(3) by (simp add: Friend_findById_def Loan_deleteOne_def)
  have r: "fst (deleteLoan now d i) = fst (recalcOwed ?d1 (owner t) now)"
    using assms(2) by (simp add: deleteLoan_def Let_def)
  have z: "ledger_net (rest i) (owner t) = 0" if "match_stage (owner t) (rest i) = []"
    using group_stage_net [of "owner t" "rest i"] that by (simp add: group_stage_def)
  show ?thesis
    using f1 fi z by (simp add: r recalcOwed_transactions recalcOwed_find recalcOwed_total d1)
qed

theorem deleteLoan_recompute_witness:
  "Loan_findById store_L 10 = Some loan_500
   \<and> Friend_findById store_L (owner loan_500) = Some (friend_A\<lparr>owedAmount := 500\<rparr>)
   \<and> match_stage (owner loan_500) (filter (\<lambda>u. tid u \<noteq> 10) (transactions store_L)) = []
   \<and> Friend_findById (fst (deleteLoan 5000 store_L 10)) 1
       = Some (friend_A\<lparr>owedAmount := 0, lastUpdatedAt := 5000\<rparr>)"
proof -
  have h1: "Loan_findById store_L 10 = Some loan_500"
    by (simp add: Loan_findById_def store_L_def loan_500_def)
  have h2: "Friend_findById store_L (owner loan_500) = Some (friend_A\<lparr>owedAmount := 500\<rparr>)"
    by (simp add: Friend_findById_def store_L_def loan_500_def friend_A_def)
  have h3: "match_stage (owner loan_500) (filter (\<lambda>u. tid u \<noteq> 10) (transactions store_L)) = []"
    by (simp add: match_stage_def store_L_def loan_500_def)
  have o: "owner loan_500 = 1" by (simp add: loan_500_def)
  have "Friend_findById (fst (deleteLoan 5000 store_L 10)) (owner loan_500)
          = Some (friend_A\<lparr>owedAmount := 500\<rparr>\<lparr>owedAmount := 0, lastUpdatedAt := 5000\<rparr>)"
    using deleteLoan_recompute [OF h1 h2, of 5000] h3 by blast
  with h1 h2 h3 o show ?thesis by simp
qed

section \<open>Deleting a friend\<close>

text \<open>
  C9: for an existing friend, the delete handler answers success and leaves a store in
  which the query for the transactions of that friend id is empty and the friend id does
  not resolve.
\<close>

theorem deleteFriend_cascade:
  assumes "Friend_findById d i = Some fr"
  shows "Transaction_find (fst (deleteFriend d i)) i = []
         \<and> Friend_findById (fst (deleteFriend d i)) i = None
         \<and> snd (deleteFriend d i) = Inr ''Friend deleted successfully''"
proof -
  have "find (\<lambda>f. fid f = i) (filter (\<lambda>f. fid f \<noteq> i) fs) = None" for fs :: "friend list"
    by (induction fs) auto
  then show ?thesis
    using assms
    by (simp add: deleteFriend_def Transaction_find_def Transaction_deleteMany_def
          Friend_findByIdAndDelete_def Friend_findById_def filter_empty_conv)
qed

theorem deleteFriend_cascade_witness:
  "Friend_findById store_B 1 = Some (friend_A\<lparr>owedAmount := 500\<rparr>)
   \<and> Transaction_find store_B 1 = [loan_500, debit_30]
   \<and> Transaction_find (fst (deleteFriend store_B 1)) 1 = []
   \<and> Friend_findById (fst (deleteFriend store_B 1)) 1 = None"
proof -
  have h: "Friend_findById store_B 1 = Some (friend_A\<lparr>owedAmount := 500\<rparr>)"
    by (simp add: Friend_findById_def store_B_def friend_A_def)
  have "Transaction_find store_B 1 = [loan_500, debit_30]"
    by (simp add: Transaction_find_def store_B_def loan_500_def debit_30_def)
  with h deleteFriend_cascade [OF h] show ?thesis by simp
qed

section \<open>Amending a loan entry\<close>

text \<open>
  C10: for a stored entry with amount \<open>a\<close> and a body with no \<open>amount\<close> and the numeric
  \<open>increment\<close> \<open>k\<close>, whatever its sign and size, the amend handler succeeds and stores the
  amount \<open>a + k\<close>, and the owed amount of the entry's friend is recomputed. With the
  increment \<open>-600\<close> on the only loan, of 500, the stored amount and the friend's owed
  amount become \<open>-100\<close>. When \<open>amount\<close> is present the increment is not looked at, and a
  numeric \<open>amount\<close> that is not negative is stored as it is.
\<close>

theorem patchLoan_increment:
  fixes t :: transaction and rsn :: "string option"
  defines "amended \<equiv> \<lambda>v. (case rsn of None \<Rightarrow> t\<lparr>amount := v\<rparr>
                                | Some r \<Rightarrow> t\<lparr>amount := v, reason := r\<rparr>)"
  shows "(Loan_findById d i = Some t \<and> Number inc = Num k \<longrightarrow>
            Loan_findById (fst (patchLoan now d i JUndefined inc rsn)) i = Some (amended (amount t + k))
            \<and> amount (amended (amount t + k)) = amount t + k
            \<and> snd (patchLoan now d i JUndefined inc rsn)
                = Inr (amended (amount t + k),
                       Friend_findById (fst (patchLoan now d i JUndefined inc rsn)) (owner t))
            \<and> (Friend_findById d (owner t) \<noteq> None \<longrightarrow>
                  owed_consistent (fst (patchLoan now d i JUndefined inc rsn)) (owner t)))
       \<and> (amt \<noteq> JUndefined \<longrightarrow>
            patchLoan now d i amt inc rsn = patchLoan now d i amt JUndefined rsn)
       \<and> (Loan_findById d i = Some t \<and> Number amt = Num r \<and> 0 \<le> r \<longrightarrow>
            Loan_findById (fst (patchLoan now d i amt inc rsn)) i = Some (amended r)
            \<and> amount (amended r) = r)
       \<and> Loan_findById (fst (patchLoan 4000 store_L 10 JUndefined (JNumber (- 600)) None)) 10
           = Some (loan_500\<lparr>amount := - 100\<rparr>)
       \<and> Friend_findById (fst (patchLoan 4000 store_L 10 JUndefined (JNumber (- 600)) None)) 1
           = Some (friend_A\<lparr>owedAmount := - 100, lastUpdatedAt := 4000\<rparr>)"
proof -
  have am: "amended v = (case rsn of None \<Rightarrow> t\<lparr>amount := v\<rparr>
                          | Some r \<Rightarrow> (t\<lparr>amount := v\<rparr>)\<lparr>reason := r\<rparr>)" for v
    by (simp add: amended_def split: option.splits)
  have av: "amount (amended v) = v" for v
    by (simp add: amended_def split: option.splits)
  have a: "Loan_findById (fst (patchLoan now d i JUndefined inc rsn)) i = Some (amended (amount t + k))
            \<and> amount (amended (amount t + k)) = amount t + k
            \<and> snd (patchLoan now d i JUndefined inc rsn)
                = Inr (amended (amount t + k),
                       Friend_findById (fst (patchLoan now d i JUndefined inc rsn)) (owner t))
            \<and> (Friend_findById d (owner t) \<noteq> None \<longrightarrow>
                  owed_consistent (fst (patchLoan now d i JUndefined inc rsn)) (owner t))"
    if h: "Loan_findById d i = Some t" and n: "Number inc = Num k"
  proof -
    have u: "inc \<noteq> JUndefined" using n by auto
    have ti: "tid (t\<lparr>amount := amount t + k\<rparr>) = i"
      using Loan_findById_tid [OF h] by simp
    have e: "patchLoan now d i JUndefined inc rsn
               = patch_finish now d (t\<lparr>amount := amount t + k\<rparr>) rsn"
      using h n u by (simp add: patchLoan_def)
    have c: "owed_consistent (fst (patch_finish now d (t\<lparr>amount := amount t + k\<rparr>) rsn)) (owner t)"
      if "Friend_findById d (owner t) \<noteq> None"
      using that patch_finish_consistent [of d "t\<lparr>amount := amount t + k\<rparr>" _ now rsn] by auto
    show ?thesis
      using patch_finish_store [where rsn = rsn and now = now, OF h ti, folded am] c av
      by (simp add: e)
  qed
  have b: "patchLoan now d i amt inc rsn = patchLoan now d i amt JUndefined rsn"
    if "amt \<noteq> JUndefined"
    using that by (simp add: patchLoan_def split: option.splits)
  have c: "Loan_findById (fst (patchLoan now d i amt inc rsn)) i = Some (amended r)
           \<and> amount (amended r) = r"
    if h: "Loan_findById d i = Some t" and n: "Number amt = Num r" and p: "0 \<le> r"
  proof -
    have u: "amt \<noteq> JUndefined" using n by auto
    have ti: "tid (t\<lparr>amount := r\<rparr>) = i"
      using Loan_findById_tid [OF h] by simp
    have e: "patchLoan now d i amt inc rsn = patch_finish now d (t\<lparr>amount := r\<rparr>) rsn"
      using h n u p by (simp add: patchLoan_def)
    show ?thesis
      using patch_finish_store(1) [where rsn = rsn and now = now, OF h ti, folded am] av
      by (simp add: e)
  qed
  have x: "Loan_findById (fst (patchLoan 4000 store_L 10 JUndefined (JNumber (- 600)) None)) 10
       = Some (loan_500\<lparr>amount := - 100\<rparr>)"
    by (simp add: patchLoan_def patch_finish_def Loan_findById_def store_L_def loan_500_def
          Loan_save_def recalcOwed_transactions Let_def)
  have y: "Friend_findById (fst (patchLoan 4000 store_L 10 JUndefined (JNumber (- 600)) None)) 1
       = Some (friend_A\<lparr>owedAmount := - 100, lastUpdatedAt := 4000\<rparr>)"
    by (simp add: patchLoan_def patch_finish_def Loan_findById_def store_L_def loan_500_def
          Loan_save_def recalcOwed_def match_stage_def group_stage_def
          Friend_findByIdAndUpdate_def Let_def Friend_findById_def friend_A_def)
  from a b c x y show ?thesis by blast
qed

theorem patchLoan_increment_witness:
  "Loan_findById store_L 10 = Some loan_500 \<and> Number (JNumber (- 600)) = Num (- 600)
   \<and> amount loan_500 + (- 600) < 0
   \<and> Loan_findById (fst (patchLoan 4000 store_L 10 JUndefined (JNumber (- 600)) None)) 10
       = Some (loan_500\<lparr>amount := amount loan_500 + (- 600)\<rparr>)
   \<and> JNumber 400 \<noteq> JUndefined \<and> Number (JNumber 400) = Num 400
   \<and> patchLoan 4000 store_L 10 (JNumber 400) (JNumber 50) None
       = patchLoan 4000 store_L 10 (JNumber 400) JUndefined None
   \<and> Loan_findById (fst (patchLoan 4000 store_L 10 (JNumber 400) (JNumber 50) None)) 10
       = Some (loan_500\<lparr>amount := 400\<rparr>)"
proof -
  have h: "Loan_findById store_L 10 = Some loan_500"
    by (simp add: Loan_findById_def store_L_def loan_500_def)
  have n: "amount loan_500 + (- 600) < 0"
    by (simp add: loan_500_def)
  note T1 = patchLoan_increment [of store_L 10 loan_500 "JNumber (- 600)" "- 600" 4000 None]
  note T2 = patchLoan_increment [of store_L 10 loan_500 "JNumber 50" 50 4000 None "JNumber 400" 400]
  have s1: "Loan_findById (fst (patchLoan 4000 store_L 10 JUndefined (JNumber (- 600)) None)) 10
              = Some (loan_500\<lparr>amount := amount loan_500 + (- 600)\<rparr>)"
    using T1 h by simp
  have s2: "patchLoan 4000 store_L 10 (JNumber 400) (JNumber 50) None
              = patchLoan 4000 store_L 10 (JNumber 400) JUndefined None"
    using T2 by simp
  have s3: "Loan_findById (fst (patchLoan 4000 store_L 10 (JNumber 400) (JNumber 50) None)) 10
              = Some (loan_500\<lparr>amount := 400\<rparr>)"
    using T2 [THEN conjunct2, THEN conjunct2, THEN conjunct1] h by simp
  from h n s1 s2 s3 show ?thesis by simp
qed

end
